theory Spec2Isabelle
  imports Complex_Main
begin

section \<open>Cross-chain sync of locked balances: data model\<close>

text \<open>
  The development follows \<^verbatim>\<open>src/composables/cross-chain-sync/useCrossChainSync.ts\<close>.
  The enum \<^verbatim>\<open>Network\<close> is declared in \<^verbatim>\<open>@/lib/config\<close>; the members listed here
  are the ones the sources name.
\<close>

datatype Network = MAINNET | KOVAN | POLYGON | ARBITRUM | GNOSIS | OPTIMISM

datatype NetworkSyncState = Unsynced | Syncing | Synced

record EscrowLockData =
  bias :: string
  slope :: string

text \<open>\<^verbatim>\<open>allNetworks\<close>: the networks supported by the cross-chain sync feature.\<close>

definition allNetworks :: "Network list" where
  "allNetworks = [POLYGON, ARBITRUM, GNOSIS, OPTIMISM]"

section \<open>The sync-state classifier\<close>

text \<open>
  Modelled from the spec: the helper \<^verbatim>\<open>allEqual\<close> of \<^verbatim>\<open>@/lib/utils/array\<close>, which the
  classifier calls on the bias values and on the slope values. The spec reads it as
  "pairwise equal": every two entries of the array are the same value.
\<close>

definition allEqual :: "'a list \<Rightarrow> bool" where
  "allEqual xs = list_all (\<lambda>x. list_all (\<lambda>y. x = y) xs) xs"

text \<open>
  \<^verbatim>\<open>getNetworkSyncState\<close>: the bridged record, the canonical record and the record of
  the secondary network. \<^verbatim>\<open>!==\<close> on two strings is inequality of their contents.
\<close>

definition getNetworkSyncState ::
  "EscrowLockData \<Rightarrow> EscrowLockData \<Rightarrow> EscrowLockData \<Rightarrow> NetworkSyncState" where
  "getNetworkSyncState omniEscrowData votingEscrowMainnet votingEscrowNetwork =
     (let biasOmniEscrow = bias omniEscrowData;
          slopeOmniEscrow = slope omniEscrowData;
          biasVotingEscrow = bias votingEscrowMainnet;
          slopeVotingEscrow = slope votingEscrowMainnet;
          biasVotingEscrowNetwork = bias votingEscrowNetwork;
          slopeVotingEscrowNetwork = slope votingEscrowNetwork;
          isSynced =
            (allEqual [biasOmniEscrow, biasVotingEscrow, biasVotingEscrowNetwork] \<and>
             allEqual [slopeOmniEscrow, slopeVotingEscrow, slopeVotingEscrowNetwork]);
          isSyncing =
            (allEqual [biasOmniEscrow, biasVotingEscrow] \<and>
             allEqual [slopeOmniEscrow, slopeVotingEscrow] \<and>
             slopeOmniEscrow \<noteq> slopeVotingEscrowNetwork \<and>
             biasOmniEscrow \<noteq> biasVotingEscrowNetwork)
      in if isSynced then Synced
         else if isSyncing then Syncing
         else Unsynced)"

section \<open>The reconciler: fetched sources and derived views\<close>

text \<open>
  The rows of the two queries. A bridged row carries the remote user; a canonical row
  carries the timestamp (whole seconds). The field names \<open>remoteUserField\<close> and
  \<open>votingEscrowLocksField\<close> stand for the source's \<^verbatim>\<open>remoteUser\<close> and
  \<^verbatim>\<open>votingEscrowLocks\<close>, names that the computed values below keep.
\<close>

record OmniVotingEscrowLock = EscrowLockData +
  remoteUserField :: string

record VotingEscrowLock = EscrowLockData +
  timestamp :: int

record OmniEscrowResponse =
  omniVotingEscrowLocks :: "OmniVotingEscrowLock list"

record VotingEscrowResponse =
  votingEscrowLocksField :: "VotingEscrowLock list"

text \<open>
  What the composable reads from its three queries and from the wallet: the \<^verbatim>\<open>data\<close>
  and \<^verbatim>\<open>isLoading\<close> refs of each query (\<open>None\<close> is \<^verbatim>\<open>undefined\<close>, no response yet) and
  the account.
\<close>

record Sources =
  account :: string
  omniEscrowResponse :: "OmniEscrowResponse option"
  isLoadingOmniEscrow :: bool
  mainnetVotingEscrowResponse :: "VotingEscrowResponse option"
  isLoadingVotingEscrow :: bool
  arbitrumVotingEscrowResponse :: "VotingEscrowResponse option"
  isLoadingVotingEscrowArbitrum :: bool

text \<open>\<^verbatim>\<open>xs[0]\<close> in JavaScript: \<^verbatim>\<open>undefined\<close> on an empty array.\<close>

definition firstRow :: "'a list \<Rightarrow> 'a option" where
  "firstRow xs = (case xs of [] \<Rightarrow> None | x # _ \<Rightarrow> Some x)"

text \<open>
  \<^verbatim>\<open>omniEscrowResponse.value?.omniVotingEscrowLocks.length === 0\<close>: false when there is
  no response, since \<^verbatim>\<open>undefined === 0\<close> is false.
\<close>

definition allNetworksUnsynced :: "Sources \<Rightarrow> bool" where
  "allNetworksUnsynced st =
     (case omniEscrowResponse st of
        None \<Rightarrow> False
      | Some r \<Rightarrow> length (omniVotingEscrowLocks r) = 0)"

text \<open>\<^verbatim>\<open>null\<close> and \<^verbatim>\<open>undefined\<close> are both \<open>None\<close>: every reader tests them with \<^verbatim>\<open>!\<close> or \<^verbatim>\<open>?.\<close>.\<close>

definition omniEscrowLocks :: "Sources \<Rightarrow> OmniVotingEscrowLock option" where
  "omniEscrowLocks st =
     (if allNetworksUnsynced st then None
      else case omniEscrowResponse st of
             None \<Rightarrow> None
           | Some r \<Rightarrow> firstRow (omniVotingEscrowLocks r))"

definition remoteUser :: "Sources \<Rightarrow> string option" where
  "remoteUser st = map_option remoteUserField (omniEscrowLocks st)"

text \<open>The object \<^verbatim>\<open>{[Network.MAINNET]: ..., [Network.ARBITRUM]: ...}\<close>, one field per key.\<close>

record VotingEscrowLocksByNetwork =
  atMAINNET :: VotingEscrowLock
  atARBITRUM :: VotingEscrowLock

definition votingEscrowLocks :: "Sources \<Rightarrow> VotingEscrowLocksByNetwork option" where
  "votingEscrowLocks st =
     (let votingEscrowLocks =
            (case mainnetVotingEscrowResponse st of
               None \<Rightarrow> None | Some r \<Rightarrow> firstRow (votingEscrowLocksField r));
          votingEscrowLocksArbitrum =
            (case arbitrumVotingEscrowResponse st of
               None \<Rightarrow> None | Some r \<Rightarrow> firstRow (votingEscrowLocksField r))
      in case (votingEscrowLocks, votingEscrowLocksArbitrum) of
           (Some m, Some a) \<Rightarrow> Some \<lparr>atMAINNET = m, atARBITRUM = a\<rparr>
         | _ \<Rightarrow> None)"

definition isLoading :: "Sources \<Rightarrow> bool" where
  "isLoading st =
     (if allNetworksUnsynced st then False
      else isLoadingOmniEscrow st \<or> isLoadingVotingEscrow st \<or>
           isLoadingVotingEscrowArbitrum st)"

text \<open>
  \<^verbatim>\<open>networksSyncState\<close>: an object keyed by network, written as the list of its entries
  in the order of the object literal, or \<open>None\<close> for \<^verbatim>\<open>null\<close>.
\<close>

definition networksSyncState :: "Sources \<Rightarrow> (Network \<times> NetworkSyncState) list option" where
  "networksSyncState st =
     (if allNetworksUnsynced st then
        Some [(ARBITRUM, Unsynced), (OPTIMISM, Unsynced), (GNOSIS, Unsynced),
              (POLYGON, Unsynced)]
      else if isLoading st \<or> omniEscrowLocks st = None \<or>
              map_option atMAINNET (votingEscrowLocks st) = None \<or>
              map_option atARBITRUM (votingEscrowLocks st) = None then None
      else
        (case (omniEscrowLocks st, votingEscrowLocks st) of
           (Some omni, Some ve) \<Rightarrow>
             Some [(ARBITRUM,
                    getNetworkSyncState
                      \<lparr>bias = bias omni, slope = slope omni\<rparr>
                      \<lparr>bias = bias (atMAINNET ve), slope = slope (atMAINNET ve)\<rparr>
                      \<lparr>bias = bias (atARBITRUM ve), slope = slope (atARBITRUM ve)\<rparr>)]
         | _ \<Rightarrow> None))"

text \<open>
  \<^verbatim>\<open>Object.keys\<close> lists integer keys in ascending numeric order, whatever the order of
  the literal. The numeric values of the \<^verbatim>\<open>Network\<close> members are declared in
  \<^verbatim>\<open>@/lib/config\<close>; they are the parameter \<open>chainId\<close> here. \<^verbatim>\<open>Number(v)\<close> turns each key
  back into the member.
\<close>

definition objectKeys :: "(Network \<Rightarrow> nat) \<Rightarrow> (Network \<times> 'v) list \<Rightarrow> Network list" where
  "objectKeys chainId obj = sort_key chainId (map fst obj)"

text \<open>The keys of the declared interface \<^verbatim>\<open>NetworknetworksBySyncState\<close>.\<close>

definition NetworknetworksBySyncState :: "string list" where
  "NetworknetworksBySyncState = [''synced'', ''unsynced'']"

text \<open>\<^verbatim>\<open>networksBySyncState\<close>: the returned object as the list of its keys and values.\<close>

definition networksBySyncState ::
  "(Network \<Rightarrow> nat) \<Rightarrow> Sources \<Rightarrow> (string \<times> Network list) list" where
  "networksBySyncState chainId st =
     (case networksSyncState st of
        None \<Rightarrow> [(''synced'', []), (''unsynced'', [])]
      | Some obj \<Rightarrow>
          [(''synced'',
              filter (\<lambda>network. map_of obj network = Some Synced) (objectKeys chainId obj)),
           (''unsynced'',
              filter (\<lambda>network. map_of obj network = Some Unsynced) (objectKeys chainId obj)),
           (''sincing'',
              filter (\<lambda>network. map_of obj network = Some Syncing) (objectKeys chainId obj))])"

text \<open>
  \<^verbatim>\<open>LayerZeroNetworkId\<close>: the bridge's identifier of a network; \<open>None\<close> is the
  \<^verbatim>\<open>undefined\<close> that a lookup of a missing key gives.
\<close>

definition LayerZeroNetworkId :: "Network \<Rightarrow> nat option" where
  "LayerZeroNetworkId network =
     (if network = POLYGON then Some 109
      else if network = ARBITRUM then Some 110
      else if network = OPTIMISM then Some 111
      else None)"

section \<open>The decay model\<close>

text \<open>
  \<^verbatim>\<open>calculateVeBAlBalance\<close> computes with the decimals of the library bignumber.js. A
  finite decimal is a pair \<open>(m, e)\<close> of an integer and a number of decimal places, of value
  \<open>m / 10 ^ e\<close>; a \<^verbatim>\<open>BigNumber\<close> is a finite decimal, an infinity with its sign, or
  \<^verbatim>\<open>NaN\<close>.
\<close>

type_synonym decimal = "int \<times> nat"

datatype BigNumber = Finite decimal | Infinite bool | NaN


text \<open>
  What the model takes from its platform without computing it: \<open>readOther\<close> is what
  \<^verbatim>\<open>new BigNumber(str)\<close> makes of a string that is not in decimal notation (blanks around
  the number, a base prefix, \<^verbatim>\<open>Infinity\<close>, \<^verbatim>\<open>NaN\<close>, anything else); \<open>printFar v\<close> is the
  integer whose digits \<^verbatim>\<open>String(v)\<close> prints for an integer-valued number \<open>v\<close> of magnitude
  \<open>2 ^ 54\<close> or more, where JavaScript prints the shortest decimal that reads back as \<open>v\<close>.
\<close>

record Platform =
  readOther :: "string \<Rightarrow> BigNumber"
  printFar :: "int \<Rightarrow> int"

definition digitChar :: "nat \<Rightarrow> char" where
  "digitChar d = char_of (48 + d)"

definition digitOf :: "char \<Rightarrow> nat option" where
  "digitOf c =
     (let k = (of_char c :: nat) in if 48 \<le> k \<and> k \<le> 57 then Some (k - 48) else None)"


function showNat :: "nat \<Rightarrow> string" where
  "showNat n = (if n < 10 then [digitChar n] else showNat (n div 10) @ [digitChar (n mod 10)])"
  by pat_completeness auto
termination
  by (relation "measure id") auto

declare showNat.simps [simp del]

fun digitsValue :: "nat \<Rightarrow> string \<Rightarrow> nat option" where
  "digitsValue acc [] = Some acc"
| "digitsValue acc (c # cs) =
     (case digitOf c of None \<Rightarrow> None | Some d \<Rightarrow> digitsValue (10 * acc + d) cs)"

text \<open>
  The exponent part of a decimal string: nothing, or the letter e (either case), an
  optional sign and at least one digit.
\<close>

definition readExponent :: "string \<Rightarrow> int option" where
  "readExponent s =
     (case s of
        [] \<Rightarrow> Some 0
      | _ # r \<Rightarrow>
          (let negative = (case r of [] \<Rightarrow> False | c # _ \<Rightarrow> c = CHR ''-'');
               signed = (case r of [] \<Rightarrow> False | c # _ \<Rightarrow> c = CHR ''-'' \<or> c = CHR ''+'');
               ds = (if signed then tl r else r)
           in if ds = [] then None
              else case digitsValue 0 ds of
                     None \<Rightarrow> None
                   | Some n \<Rightarrow> Some (if negative then - int n else int n)))"

text \<open>
  A string in decimal notation and the finite decimal it denotes: an optional sign, then
  digits with an optional point and optional further digits, or a point and digits, then
  an optional exponent. These are the strings that the library's test for a decimal
  numeral accepts, and those with a leading plus sign, which it strips. \<open>None\<close> is any
  other string, and a string whose exponent is beyond a million in magnitude, where the
  limits of the library's own exponent may come into play.
\<close>

definition isE :: "char \<Rightarrow> bool" where
  "isE c \<longleftrightarrow> c = CHR ''e'' \<or> c = CHR ''E''"

definition readDecimal :: "string \<Rightarrow> decimal option" where
  "readDecimal str =
     (let negative = (case str of [] \<Rightarrow> False | c # _ \<Rightarrow> c = CHR ''-'');
          signed = (case str of [] \<Rightarrow> False | c # _ \<Rightarrow> c = CHR ''-'' \<or> c = CHR ''+'');
          body = (if signed then tl str else str);
          mantissa = takeWhile (\<lambda>c. \<not> isE c) body;
          exponent = dropWhile (\<lambda>c. \<not> isE c) body;
          ip = takeWhile (\<lambda>c. c \<noteq> CHR ''.'') mantissa;
          fp = tl (dropWhile (\<lambda>c. c \<noteq> CHR ''.'') mantissa)
      in if ip = [] \<and> fp = [] then None
         else case (digitsValue 0 (ip @ fp), readExponent exponent) of
                (Some n, Some x) \<Rightarrow>
                  (let m = (if negative then - int n else int n);
                       shift = x - int (length fp)
                   in if 1000000 < \<bar>x\<bar> then None
                      else if 0 \<le> shift then Some (m * 10 ^ nat shift, 0)
                      else Some (m, nat (- shift)))
              | _ \<Rightarrow> None)"

text \<open>\<^verbatim>\<open>new BigNumber(str)\<close> on a string.\<close>

definition parseBigNumber :: "Platform \<Rightarrow> string \<Rightarrow> BigNumber" where
  "parseBigNumber pf str =
     (case readDecimal str of Some x \<Rightarrow> Finite x | None \<Rightarrow> readOther pf str)"

text \<open>
  Numbers. \<^verbatim>\<open>Math.floor(Date.now() / 1000) - timestamp\<close> is a subtraction of two
  integer-valued double-precision numbers: its result is the exact difference rounded to
  53 significant bits, a tie going to the even significand. \<open>roundToDouble\<close> is that
  rounding of an integer; it changes nothing up to \<open>2 ^ 53\<close>.
\<close>

function halvings :: "nat \<Rightarrow> nat" where
  "halvings a = (if a < 2 ^ 53 then 0 else Suc (halvings (a div 2)))"
  by pat_completeness auto
termination
  by (relation "measure id") auto

declare halvings.simps [simp del]

definition roundToDouble :: "int \<Rightarrow> int" where
  "roundToDouble v =
     (let a = nat \<bar>v\<bar>;
          k = halvings a;
          q = a div 2 ^ k;
          r = a mod 2 ^ k;
          up = (2 ^ k < 2 * r \<or> (2 * r = 2 ^ k \<and> odd q));
          m = (if up then q + 1 else q) * 2 ^ k
      in if v < 0 then - int m else int m)"

definition jsMinus :: "int \<Rightarrow> int \<Rightarrow> int" where
  "jsMinus a b = roundToDouble (a - b)"

text \<open>
  \<^verbatim>\<open>new BigNumber(v)\<close> on an integer-valued number goes through the digits that
  \<^verbatim>\<open>String(v)\<close> prints: those of \<open>v\<close> itself below \<open>2 ^ 54\<close>.
\<close>

definition numberToBigNumber :: "Platform \<Rightarrow> int \<Rightarrow> BigNumber" where
  "numberToBigNumber pf v = Finite (if \<bar>v\<bar> < 2 ^ 54 then v else printFar pf v, 0)"

text \<open>Exact product and difference of finite decimals.\<close>

definition timesDecimal :: "decimal \<Rightarrow> decimal \<Rightarrow> decimal" where
  "timesDecimal x y = (fst x * fst y, snd x + snd y)"

definition minusDecimal :: "decimal \<Rightarrow> decimal \<Rightarrow> decimal" where
  "minusDecimal x y =
     (let e = max (snd x) (snd y)
      in (fst x * 10 ^ (e - snd x) - fst y * 10 ^ (e - snd y), e))"

text \<open>
  \<^verbatim>\<open>multipliedBy\<close> and \<^verbatim>\<open>minus\<close>: exact on finite decimals; \<^verbatim>\<open>NaN\<close> when an operand is
  \<^verbatim>\<open>NaN\<close>, for zero times an infinity and for the difference of two infinities of one
  sign.
\<close>

fun multipliedBy :: "BigNumber \<Rightarrow> BigNumber \<Rightarrow> BigNumber" where
  "multipliedBy NaN _ = NaN"
| "multipliedBy _ NaN = NaN"
| "multipliedBy (Finite x) (Finite y) = Finite (timesDecimal x y)"
| "multipliedBy (Finite x) (Infinite n) =
     (if fst x = 0 then NaN else Infinite (n \<noteq> (fst x < 0)))"
| "multipliedBy (Infinite n) (Finite y) =
     (if fst y = 0 then NaN else Infinite (n \<noteq> (fst y < 0)))"
| "multipliedBy (Infinite n) (Infinite n') = Infinite (n \<noteq> n')"

fun minusBN :: "BigNumber \<Rightarrow> BigNumber \<Rightarrow> BigNumber" where
  "minusBN NaN _ = NaN"
| "minusBN _ NaN = NaN"
| "minusBN (Finite x) (Finite y) = Finite (minusDecimal x y)"
| "minusBN (Finite x) (Infinite n) = Infinite (\<not> n)"
| "minusBN (Infinite n) (Finite y) = Infinite n"
| "minusBN (Infinite n) (Infinite n') = (if n = n' then NaN else Infinite n)"

text \<open>
  \<^verbatim>\<open>toFixed(dp)\<close> on a finite decimal rounds the magnitude to \<open>dp\<close> places, a tie away
  from zero (the library's default rounding mode), and prints the integer part, the point
  and exactly \<open>dp\<close> digits, with the minus sign of the value before rounding.
\<close>

definition roundHalfUp :: "nat \<Rightarrow> decimal \<Rightarrow> nat" where
  "roundHalfUp dp x =
     (let a = nat \<bar>fst x\<bar>; e = snd x
      in if e \<le> dp then a * 10 ^ (dp - e)
         else let p = 10 ^ (e - dp)
              in a div p + (if p \<le> 2 * (a mod p) then 1 else 0))"


definition padStart :: "nat \<Rightarrow> string \<Rightarrow> string" where
  "padStart k s = replicate (k - length s) CHR ''0'' @ s"

definition fixedDecimal :: "nat \<Rightarrow> decimal \<Rightarrow> string" where
  "fixedDecimal dp x =
     (let n = roundHalfUp dp x
      in (if fst x < 0 then ''-'' else []) @ showNat (n div 10 ^ dp) @
         (if dp = 0 then [] else ''.'' @ padStart dp (showNat (n mod 10 ^ dp))))"

fun toFixed :: "nat \<Rightarrow> BigNumber \<Rightarrow> string" where
  "toFixed dp (Finite x) = fixedDecimal dp x"
| "toFixed dp (Infinite n) = (if n then ''-Infinity'' else ''Infinity'')"
| "toFixed dp NaN = ''NaN''"

text \<open>
  \<^verbatim>\<open>calculateVeBAlBalance\<close>. The clock is the argument \<open>nowMs\<close>, the value of
  \<^verbatim>\<open>Date.now()\<close>, a whole number of milliseconds below \<open>2 ^ 53\<close> in magnitude, for which
  \<^verbatim>\<open>Math.floor(Date.now() / 1000)\<close> is \<open>nowMs div 1000\<close>. The timestamp is an integer-valued
  number. The primes keep the parameters apart from the record fields of the same names.
\<close>

definition calculateVeBAlBalance :: "Platform \<Rightarrow> int \<Rightarrow> string \<Rightarrow> string \<Rightarrow> int \<Rightarrow> string" where
  "calculateVeBAlBalance pf nowMs bias' slope' timestamp' =
     (let x = multipliedBy (parseBigNumber pf slope')
                (numberToBigNumber pf (jsMinus (nowMs div 1000) timestamp'))
      in toFixed 4 (minusBN (parseBigNumber pf bias') x))"

text \<open>\<^verbatim>\<open>l2VeBalBalances\<close>: an object keyed by network, or \<open>None\<close> for \<^verbatim>\<open>null\<close>.\<close>

definition l2VeBalBalances :: "Platform \<Rightarrow> int \<Rightarrow> Sources \<Rightarrow> (Network \<times> string) list option" where
  "l2VeBalBalances pf nowMs st =
     (case votingEscrowLocks st of
        None \<Rightarrow> None
      | Some ve \<Rightarrow>
          (let biasArb = bias (atARBITRUM ve);
               slopeArb = slope (atARBITRUM ve);
               timestampArb = timestamp (atARBITRUM ve)
           in Some [(ARBITRUM, calculateVeBAlBalance pf nowMs biasArb slopeArb timestampArb)]))"

section \<open>The actions \<^verbatim>\<open>sync\<close> and \<^verbatim>\<open>refetch\<close>\<close>

text \<open>
  A rejected promise is \<open>Inl\<close>: \<open>Error\<close> is a JavaScript \<^verbatim>\<open>Error\<close> thrown by the
  composable itself, \<open>Rejection\<close> the rejection of a call to a collaborator.
\<close>

datatype error = Error string | Rejection string

text \<open>The test \<^verbatim>\<open>if (v)\<close> on a string that may be \<^verbatim>\<open>undefined\<close>: the empty string is falsy.\<close>

definition truthy :: "string option \<Rightarrow> bool" where
  "truthy v = (case v of None \<Rightarrow> False | Some s \<Rightarrow> s \<noteq> [])"

text \<open>
  The bridge contract object \<^verbatim>\<open>new OmniVotingEscrow(contractAddress)\<close>: its two methods,
  each answering with a rejection or a value. The calls made on it are recorded in a trace.
\<close>

record ('s, 'f, 't) OmniVotingEscrow =
  estimateSendUserBalance :: "'s \<Rightarrow> nat option \<Rightarrow> error + 'f"
  sendUserBalance :: "'s \<Rightarrow> string \<Rightarrow> nat option \<Rightarrow> 'f \<Rightarrow> error + 't"

datatype ('s, 'f) bridgeCall =
  EstimateSendUserBalance string 's "nat option"
| SendUserBalance string 's string "nat option" 'f

text \<open>
  What the caller of a function sees: an exception thrown during the call, or a promise
  returned, with the outcome it settles to. An \<^verbatim>\<open>async function\<close> always returns a
  promise, and a \<^verbatim>\<open>throw\<close> in its body rejects that promise.
\<close>

datatype 'a completion = Thrown error | Promise "error + 'a"

definition threwSynchronously :: "'a completion \<Rightarrow> bool" where
  "threwSynchronously c = (case c of Thrown e \<Rightarrow> True | Promise r \<Rightarrow> False)"

text \<open>
  \<^verbatim>\<open>sync\<close>, declared \<^verbatim>\<open>async\<close>: \<open>contractAddress\<close> is
  \<^verbatim>\<open>configService.network.addresses.omniVotingEscrow\<close>, \<open>signer\<close> the value of
  \<^verbatim>\<open>getSigner()\<close>, \<open>newOmniVotingEscrow\<close> the constructor. The result is the trace of the
  calls to the bridge contract and what the caller sees. The \<^verbatim>\<open>console.log\<close> lines are
  left out.
\<close>

definition sync ::
  "string option \<Rightarrow> 's \<Rightarrow> (string \<Rightarrow> ('s, 'f, 't) OmniVotingEscrow) \<Rightarrow> Sources \<Rightarrow> Network \<Rightarrow>
     ('s, 'f) bridgeCall list \<times> 't completion" where
  "sync contractAddress signer newOmniVotingEscrow st network =
     (if \<not> truthy contractAddress
      then ([], Promise (Inl (Error ''No contract address found'')))
      else
        let address = the contractAddress;
            omniVotingEscrowContract = newOmniVotingEscrow address;
            chainId = LayerZeroNetworkId network
        in case estimateSendUserBalance omniVotingEscrowContract signer chainId of
             Inl e \<Rightarrow> ([EstimateSendUserBalance address signer chainId], Promise (Inl e))
           | Inr nativeFee \<Rightarrow>
               ([EstimateSendUserBalance address signer chainId,
                 SendUserBalance address signer (account st) chainId nativeFee],
                Promise
                  (sendUserBalance omniVotingEscrowContract signer (account st) chainId
                     nativeFee)))"

text \<open>
  \<^verbatim>\<open>refetch\<close>. \<open>Issue f\<close> is a call of the fetcher \<open>f\<close>, \<open>Await fs\<close> the point where the
  function waits for the fetchers \<open>fs\<close> to complete. The environment is two functions:
  \<open>refetchBoth st\<close> is the outcome of \<^verbatim>\<open>await Promise.all([refetchOmniEscrow(),
  refetchVotingEscrow()])\<close> started on the sources \<open>st\<close>, either a rejection or the sources
  as they stand once both fetches have completed; \<open>refetchArbitrum\<close> is the outcome of the
  third fetch. \<^verbatim>\<open>remoteUser.value\<close> is read after the first await, so on the refreshed
  sources.
\<close>

datatype fetcher = RefetchOmniEscrow | RefetchVotingEscrow | RefetchVotingEscrowArbitrum

datatype refetchStep = Issue fetcher | Await "fetcher list"

definition refetch ::
  "(Sources \<Rightarrow> error + Sources) \<Rightarrow> (Sources \<Rightarrow> error + unit) \<Rightarrow> Sources \<Rightarrow>
     refetchStep list \<times> (error + unit)" where
  "refetch refetchBoth refetchArbitrum st =
     (let both = [Issue RefetchOmniEscrow, Issue RefetchVotingEscrow,
                  Await [RefetchOmniEscrow, RefetchVotingEscrow]]
      in case refetchBoth st of
           Inl e \<Rightarrow> (both, Inl e)
         | Inr st' \<Rightarrow>
             if truthy (remoteUser st')
             then (both @ [Issue RefetchVotingEscrowArbitrum,
                           Await [RefetchVotingEscrowArbitrum]],
                   refetchArbitrum st')
             else (both, Inr ()))"

text \<open>How many times a trace calls a fetcher.\<close>

definition issued :: "fetcher \<Rightarrow> refetchStep list \<Rightarrow> nat" where
  "issued f steps = count_list steps (Issue f)"

section \<open>Conditions and concrete inputs\<close>

text \<open>
  Two conditions on the sources, used to state what the reconciler reports: some fetch is
  still in flight; some of the three lock records (bridged, canonical, secondary) is
  absent.
\<close>

definition anyFetchLoading :: "Sources \<Rightarrow> bool" where
  "anyFetchLoading st \<longleftrightarrow>
     isLoadingOmniEscrow st \<or> isLoadingVotingEscrow st \<or> isLoadingVotingEscrowArbitrum st"

definition anyRecordAbsent :: "Sources \<Rightarrow> bool" where
  "anyRecordAbsent st \<longleftrightarrow>
     omniEscrowLocks st = None \<or>
     (case mainnetVotingEscrowResponse st of
        None \<Rightarrow> True | Some r \<Rightarrow> votingEscrowLocksField r = []) \<or>
     (case arbitrumVotingEscrowResponse st of
        None \<Rightarrow> True | Some r \<Rightarrow> votingEscrowLocksField r = [])"

text \<open>Sources used as concrete inputs.\<close>

definition lockA :: VotingEscrowLock where
  "lockA = \<lparr>bias = ''10'', slope = ''1'', timestamp = 1700000000\<rparr>"

definition lockB :: VotingEscrowLock where
  "lockB = \<lparr>bias = ''5'', slope = ''0.5'', timestamp = 1700000000\<rparr>"

definition omniA :: OmniVotingEscrowLock where
  "omniA = \<lparr>bias = ''10'', slope = ''1'', remoteUserField = ''0xabc''\<rparr>"

definition sourcesEmptyBridge :: Sources where
  "sourcesEmptyBridge =
     \<lparr>account = ''0xabc'',
      omniEscrowResponse = Some \<lparr>omniVotingEscrowLocks = []\<rparr>,
      isLoadingOmniEscrow = True,
      mainnetVotingEscrowResponse = None,
      isLoadingVotingEscrow = True,
      arbitrumVotingEscrowResponse = Some \<lparr>votingEscrowLocksField = [lockB]\<rparr>,
      isLoadingVotingEscrowArbitrum = True\<rparr>"

definition sourcesPending :: Sources where
  "sourcesPending =
     \<lparr>account = ''0xabc'',
      omniEscrowResponse = Some \<lparr>omniVotingEscrowLocks = [omniA]\<rparr>,
      isLoadingOmniEscrow = False,
      mainnetVotingEscrowResponse = Some \<lparr>votingEscrowLocksField = [lockA]\<rparr>,
      isLoadingVotingEscrow = False,
      arbitrumVotingEscrowResponse = None,
      isLoadingVotingEscrowArbitrum = True\<rparr>"

definition sourcesLoaded :: Sources where
  "sourcesLoaded =
     \<lparr>account = ''0xabc'',
      omniEscrowResponse = Some \<lparr>omniVotingEscrowLocks = [omniA]\<rparr>,
      isLoadingOmniEscrow = False,
      mainnetVotingEscrowResponse = Some \<lparr>votingEscrowLocksField = [lockA]\<rparr>,
      isLoadingVotingEscrow = False,
      arbitrumVotingEscrowResponse = Some \<lparr>votingEscrowLocksField = [lockB]\<rparr>,
      isLoadingVotingEscrowArbitrum = False\<rparr>"

definition samplePlatform :: Platform where
  "samplePlatform = \<lparr>readOther = (\<lambda>str. NaN), printFar = (\<lambda>v. v)\<rparr>"

definition sampleChainId :: "Network \<Rightarrow> nat" where
  "sampleChainId n =
     (case n of MAINNET \<Rightarrow> 1 | KOVAN \<Rightarrow> 42 | POLYGON \<Rightarrow> 137 | ARBITRUM \<Rightarrow> 42161
      | GNOSIS \<Rightarrow> 100 | OPTIMISM \<Rightarrow> 10)"

definition bridgeAccepting :: "string \<Rightarrow> (string, nat, string) OmniVotingEscrow" where
  "bridgeAccepting address =
     \<lparr>estimateSendUserBalance = (\<lambda>signer chainId. Inr 7),
      sendUserBalance = (\<lambda>signer userAddress chainId nativeFee. Inr ''0xtx'')\<rparr>"

definition bridgeFeeRejecting :: "string \<Rightarrow> (string, nat, string) OmniVotingEscrow" where
  "bridgeFeeRejecting address =
     \<lparr>estimateSendUserBalance = (\<lambda>signer chainId. Inl (Rejection ''fee estimation failed'')),
      sendUserBalance = (\<lambda>signer userAddress chainId nativeFee. Inr ''0xtx'')\<rparr>"

definition fetchedLoaded :: "Sources \<Rightarrow> error + Sources" where
  "fetchedLoaded st = Inr sourcesLoaded"

definition fetchedEmptyBridge :: "Sources \<Rightarrow> error + Sources" where
  "fetchedEmptyBridge st = Inr sourcesEmptyBridge"

definition fetchedArbitrum :: "Sources \<Rightarrow> error + unit" where
  "fetchedArbitrum st = Inr ()"

section \<open>Properties of the classifier\<close>

lemma allEqual2: "allEqual [a, b] \<longleftrightarrow> a = b"
  by (auto simp: allEqual_def)

lemma allEqual3: "allEqual [a, b, c] \<longleftrightarrow> a = b \<and> b = c"
  by (auto simp: allEqual_def)

text \<open>
  C1. When the three bias values are pairwise equal and the three slope values are
  pairwise equal (as strings), \<^verbatim>\<open>getNetworkSyncState\<close> returns \<open>Synced\<close>.
\<close>

theorem getNetworkSyncState_synced:
  assumes "bias b = bias c" and "bias c = bias s" and "bias b = bias s"
    and "slope b = slope c" and "slope c = slope s" and "slope b = slope s"
  shows "getNetworkSyncState b c s = Synced"
  using assms by (simp add: getNetworkSyncState_def allEqual3)

theorem getNetworkSyncState_synced_witness:
  "getNetworkSyncState \<lparr>bias = ''10'', slope = ''1''\<rparr> \<lparr>bias = ''10'', slope = ''1''\<rparr>
     \<lparr>bias = ''10'', slope = ''1''\<rparr> = Synced"
  by (rule getNetworkSyncState_synced) simp_all

text \<open>
  C2. When the bridged record equals the canonical record in bias and in slope, and the
  record of the secondary network differs from the bridged record in both bias and slope,
  \<^verbatim>\<open>getNetworkSyncState\<close> returns \<open>Syncing\<close>; so it does for bridged 10/1, canonical 10/1
  and secondary 5/0.5.
\<close>

theorem getNetworkSyncState_syncing:
  "(bias b = bias c \<and> slope b = slope c \<and> bias s \<noteq> bias b \<and> slope s \<noteq> slope b
      \<longrightarrow> getNetworkSyncState b c s = Syncing) \<and>
   getNetworkSyncState \<lparr>bias = ''10'', slope = ''1''\<rparr> \<lparr>bias = ''10'', slope = ''1''\<rparr>
     \<lparr>bias = ''5'', slope = ''0.5''\<rparr> = Syncing"
  by (auto simp: getNetworkSyncState_def allEqual2 allEqual3)

theorem getNetworkSyncState_syncing_witness:
  "getNetworkSyncState \<lparr>bias = ''7'', slope = ''2''\<rparr> \<lparr>bias = ''7'', slope = ''2''\<rparr>
     \<lparr>bias = ''3'', slope = ''4''\<rparr> = Syncing"
  using getNetworkSyncState_syncing
    [of "\<lparr>bias = ''7'', slope = ''2''\<rparr>" "\<lparr>bias = ''7'', slope = ''2''\<rparr>"
        "\<lparr>bias = ''3'', slope = ''4''\<rparr>"]
  by simp

text \<open>
  C3. When the bridged record equals the canonical record in bias and in slope, and the
  record of the secondary network differs from them in exactly one of the two fields,
  \<^verbatim>\<open>getNetworkSyncState\<close> returns \<open>Unsynced\<close> (and so not \<open>Syncing\<close>).
\<close>

theorem getNetworkSyncState_one_field_unsynced:
  assumes "bias b = bias c" and "slope b = slope c"
    and "(bias s \<noteq> bias b \<and> slope s = slope b) \<or> (bias s = bias b \<and> slope s \<noteq> slope b)"
  shows "getNetworkSyncState b c s = Unsynced \<and> getNetworkSyncState b c s \<noteq> Syncing"
  using assms by (auto simp: getNetworkSyncState_def allEqual2 allEqual3)

theorem getNetworkSyncState_one_field_unsynced_witness:
  "getNetworkSyncState \<lparr>bias = ''10'', slope = ''1''\<rparr> \<lparr>bias = ''10'', slope = ''1''\<rparr>
     \<lparr>bias = ''5'', slope = ''1''\<rparr> = Unsynced \<and>
   getNetworkSyncState \<lparr>bias = ''10'', slope = ''1''\<rparr> \<lparr>bias = ''10'', slope = ''1''\<rparr>
     \<lparr>bias = ''10'', slope = ''0.5''\<rparr> = Unsynced"
  using getNetworkSyncState_one_field_unsynced
    [of "\<lparr>bias = ''10'', slope = ''1''\<rparr>" "\<lparr>bias = ''10'', slope = ''1''\<rparr>"
        "\<lparr>bias = ''5'', slope = ''1''\<rparr>"]
    getNetworkSyncState_one_field_unsynced
    [of "\<lparr>bias = ''10'', slope = ''1''\<rparr>" "\<lparr>bias = ''10'', slope = ''1''\<rparr>"
        "\<lparr>bias = ''10'', slope = ''0.5''\<rparr>"]
  by simp

section \<open>Properties of the reconciler's views\<close>

lemma votingEscrowLocks_None_iff:
  "votingEscrowLocks st = None \<longleftrightarrow>
     (case mainnetVotingEscrowResponse st of
        None \<Rightarrow> True | Some r \<Rightarrow> votingEscrowLocksField r = []) \<or>
     (case arbitrumVotingEscrowResponse st of
        None \<Rightarrow> True | Some r \<Rightarrow> votingEscrowLocksField r = [])"
  by (auto simp: votingEscrowLocks_def firstRow_def split: option.splits list.splits)

lemma networksSyncState_null_iff:
  "\<not> allNetworksUnsynced st \<Longrightarrow>
     networksSyncState st = None \<longleftrightarrow> anyFetchLoading st \<or> anyRecordAbsent st"
  by (auto simp: networksSyncState_def isLoading_def anyFetchLoading_def anyRecordAbsent_def
        votingEscrowLocks_None_iff [symmetric] split: option.splits)

text \<open>
  C4. When the bridge-mirror response holds zero rows, \<^verbatim>\<open>networksSyncState\<close> reports
  \<open>Unsynced\<close> for each of Polygon, Arbitrum, Gnosis and Optimism and \<^verbatim>\<open>isLoading\<close> is
  false, whatever the loading flags and the other two responses are.
\<close>

theorem empty_bridge_set_all_unsynced:
  assumes "omniEscrowResponse st = Some r" and "omniVotingEscrowLocks r = []"
  shows "isLoading st = False \<and>
         (\<exists>obj. networksSyncState st = Some obj \<and>
            (\<forall>n \<in> set allNetworks. map_of obj n = Some Unsynced))"
  using assms
  by (simp add: isLoading_def networksSyncState_def allNetworksUnsynced_def allNetworks_def)

theorem empty_bridge_set_all_unsynced_witness:
  "isLoadingOmniEscrow sourcesEmptyBridge \<and> isLoadingVotingEscrow sourcesEmptyBridge \<and>
   isLoadingVotingEscrowArbitrum sourcesEmptyBridge \<and>
   isLoading sourcesEmptyBridge = False \<and>
   (\<exists>obj. networksSyncState sourcesEmptyBridge = Some obj \<and>
      (\<forall>n \<in> set allNetworks. map_of obj n = Some Unsynced))"
  using empty_bridge_set_all_unsynced [of sourcesEmptyBridge "\<lparr>omniVotingEscrowLocks = []\<rparr>"]
  by (simp add: sourcesEmptyBridge_def)

text \<open>
  C10. Off the fast path (the bridged record set is not the empty set), when a fetch is
  still loading or one of the three lock records is absent, \<^verbatim>\<open>networksSyncState\<close> is
  null and \<^verbatim>\<open>networksBySyncState\<close> is the object with the two keys \<open>synced\<close> and
  \<open>unsynced\<close>, both empty, and no bucket for the syncing networks. In every other case
  off the fast path the object has the bucket of the syncing networks under the key
  \<open>sincing\<close>, which is not a key of the declared interface, and has no key \<open>syncing\<close>.
  The bridged record counts as absent also while there is no bridge-mirror response.
\<close>

theorem partition_null_or_sincing:
  assumes "\<not> allNetworksUnsynced st"
  shows "(anyFetchLoading st \<or> anyRecordAbsent st \<longrightarrow>
            networksSyncState st = None \<and>
            networksBySyncState chainId st = [(''synced'', []), (''unsynced'', [])] \<and>
            map_of (networksBySyncState chainId st) ''sincing'' = None \<and>
            map_of (networksBySyncState chainId st) ''syncing'' = None) \<and>
         (\<not> (anyFetchLoading st \<or> anyRecordAbsent st) \<longrightarrow>
            (\<exists>s. networksSyncState st = Some [(ARBITRUM, s)] \<and>
               map_of (networksBySyncState chainId st) ''sincing'' =
                 Some (if s = Syncing then [ARBITRUM] else [])) \<and>
            map_of (networksBySyncState chainId st) ''syncing'' = None \<and>
            ''sincing'' \<notin> set NetworknetworksBySyncState)"
proof (cases "anyFetchLoading st \<or> anyRecordAbsent st")
  case True
  then have "networksSyncState st = None"
    using assms by (simp add: networksSyncState_null_iff)
  then show ?thesis using True by (simp add: networksBySyncState_def)
next
  case False
  then have "networksSyncState st \<noteq> None"
    using assms by (simp add: networksSyncState_null_iff)
  then obtain s where s: "networksSyncState st = Some [(ARBITRUM, s)]"
    using assms by (auto simp: networksSyncState_def split: if_splits option.splits)
  show ?thesis using False s
    by (simp add: networksBySyncState_def objectKeys_def NetworknetworksBySyncState_def)
qed

theorem partition_null_or_sincing_witness:
  "\<not> allNetworksUnsynced sourcesPending \<and> anyFetchLoading sourcesPending \<and>
   networksSyncState sourcesPending = None \<and>
   networksBySyncState sampleChainId sourcesPending = [(''synced'', []), (''unsynced'', [])] \<and>
   \<not> allNetworksUnsynced sourcesLoaded \<and>
   \<not> (anyFetchLoading sourcesLoaded \<or> anyRecordAbsent sourcesLoaded) \<and>
   map_of (networksBySyncState sampleChainId sourcesLoaded) ''sincing'' \<noteq> None"
  using partition_null_or_sincing [of sourcesPending sampleChainId]
    partition_null_or_sincing [of sourcesLoaded sampleChainId]
  by (auto simp add: allNetworksUnsynced_def sourcesPending_def sourcesLoaded_def
        anyFetchLoading_def anyRecordAbsent_def omniEscrowLocks_def firstRow_def)


section \<open>Properties of the decay model\<close>
















text \<open>Up to \<open>2 ^ 53\<close> every integer is a double, and the subtraction is exact.\<close>

lemma roundToDouble_exact: "\<bar>v\<bar> \<le> 2 ^ 53 \<Longrightarrow> roundToDouble v = v"
proof -
  assume v: "\<bar>v\<bar> \<le> 2 ^ 53"
  define a where "a = nat \<bar>v\<bar>"
  have a: "a \<le> 2 ^ 53" using v by (simp add: a_def nat_le_iff)
  have sgn: "(if v < 0 then - int a else int a) = v" by (simp add: a_def)
  show ?thesis
  proof (cases "a < 2 ^ 53")
    case True
    then have "halvings a = 0" by (simp add: halvings.simps [of a])
    then have "roundToDouble v = (if v < 0 then - int a else int a)"
      by (simp add: roundToDouble_def a_def [symmetric] Let_def)
    then show ?thesis using sgn by simp
  next
    case False
    then have eq: "a = 2 ^ 53" using a by simp
    have "halvings (2 ^ 53) = 1" by (simp add: halvings.simps)
    then have h: "halvings a = 1" by (simp add: eq)
    have "roundToDouble v = (if v < 0 then - int a else int a)"
      by (simp add: roundToDouble_def a_def [symmetric] Let_def h) (simp add: eq)
    then show ?thesis using sgn by simp
  qed
qed





lemma read_samples:
  "readDecimal ''100'' = Some (100, 0)" "readDecimal ''1'' = Some (1, 0)"
  "readDecimal ''50'' = Some (50, 0)" "readDecimal ''0'' = Some (0, 0)"
  "readDecimal ''5'' = Some (5, 0)" "readDecimal ''0.5'' = Some (5, 1)"
  "readDecimal ''.5'' = Some (5, 1)" "readDecimal ''5.'' = Some (5, 0)"
  "readDecimal ''+5'' = Some (5, 0)" "readDecimal ''1e2'' = Some (100, 0)"
  by (simp_all add: readDecimal_def readExponent_def digitOf_def isE_def)

lemma char_of_one: "char_of (49::nat) = CHR ''1''"
  by code_simp

lemma digitChar_samples:
  "digitChar 0 = CHR ''0''" "digitChar (Suc 0) = CHR ''1''" "digitChar 2 = CHR ''2''"
  "digitChar 3 = CHR ''3''" "digitChar 4 = CHR ''4''" "digitChar 5 = CHR ''5''"
  "digitChar 6 = CHR ''6''" "digitChar 7 = CHR ''7''" "digitChar 8 = CHR ''8''"
  "digitChar 9 = CHR ''9''"
  by (simp add: digitChar_def char_of_one | code_simp)+

lemma showNat_samples:
  "showNat 90 = ''90''" "showNat 50 = ''50''" "showNat 5 = ''5''" "showNat 0 = ''0''"
  "showNat 3 = ''3''" "showNat 95 = ''95''"
  "showNat 9007200954741000 = ''9007200954741000''"
  by (simp_all add: showNat.simps digitChar_samples)

lemma padStart_zero: "padStart 4 ''0'' = ''0000''"
  by code_simp

lemma fixedDecimal_samples:
  "fixedDecimal 4 (90, 0) = ''90.0000''" "fixedDecimal 4 (50, 0) = ''50.0000''"
  "fixedDecimal 4 (- 5, 0) = ''-5.0000''" "fixedDecimal 4 (30, Suc 0) = ''3.0000''"
  "fixedDecimal 4 (950, Suc 0) = ''95.0000''"
  "fixedDecimal 4 (- 9007200954741000, 0) = ''-9007200954741000.0000''"
  by (simp_all add: fixedDecimal_def roundHalfUp_def showNat_samples padStart_zero)

lemma parse_samples:
  "parseBigNumber pf ''100'' = Finite (100, 0)" "parseBigNumber pf ''1'' = Finite (1, 0)"
  "parseBigNumber pf ''50'' = Finite (50, 0)" "parseBigNumber pf ''0'' = Finite (0, 0)"
  "parseBigNumber pf ''5'' = Finite (5, 0)" "parseBigNumber pf ''0.5'' = Finite (5, 1)"
  by (simp_all add: parseBigNumber_def read_samples)







section \<open>Which networks the reconciler reports\<close>

lemma sourcesLoaded_facts:
  "\<not> allNetworksUnsynced sourcesLoaded"
  "\<not> anyFetchLoading sourcesLoaded"
  "\<not> anyRecordAbsent sourcesLoaded"
  "omniEscrowLocks sourcesLoaded = Some omniA"
  "votingEscrowLocks sourcesLoaded = Some \<lparr>atMAINNET = lockA, atARBITRUM = lockB\<rparr>"
  by (simp_all add: allNetworksUnsynced_def anyFetchLoading_def anyRecordAbsent_def
        omniEscrowLocks_def votingEscrowLocks_def firstRow_def sourcesLoaded_def)

lemma networksSyncState_sourcesLoaded:
  "networksSyncState sourcesLoaded = Some [(ARBITRUM, Syncing)]"
  by (simp add: networksSyncState_def isLoading_def sourcesLoaded_facts
        getNetworkSyncState_def allEqual2 allEqual3 omniA_def lockA_def lockB_def)
    (simp add: sourcesLoaded_def)

lemma l2VeBalBalances_sourcesLoaded:
  "l2VeBalBalances samplePlatform 1700000004000 sourcesLoaded = Some [(ARBITRUM, ''3.0000'')]"
  by (simp add: l2VeBalBalances_def sourcesLoaded_facts lockB_def calculateVeBAlBalance_def
        parse_samples numberToBigNumber_def jsMinus_def roundToDouble_exact minusDecimal_def
        timesDecimal_def fixedDecimal_samples)

text \<open>
  C6, as stated, fails: on sources off the fast path with all three records loaded, the
  sync-state mapping and the projected balances have an entry for Arbitrum and none for
  Polygon, which is one of \<^verbatim>\<open>allNetworks\<close>.
\<close>

theorem every_network_reported_counterexample:
  "\<not> allNetworksUnsynced sourcesLoaded \<and>
   POLYGON \<in> set allNetworks \<and>
   networksSyncState sourcesLoaded = Some [(ARBITRUM, Syncing)] \<and>
   map_of [(ARBITRUM, Syncing)] POLYGON = None \<and>
   l2VeBalBalances samplePlatform 1700000004000 sourcesLoaded =
     Some [(ARBITRUM, ''3.0000'')] \<and>
   map_of [(ARBITRUM, ''3.0000'')] POLYGON = None"
  by (simp add: sourcesLoaded_facts networksSyncState_sourcesLoaded
        l2VeBalBalances_sourcesLoaded allNetworks_def)

text \<open>
  C6, amended. Off the fast path, when no fetch is loading and the bridged, the canonical
  and the Arbitrum record are all present, the reconciler exposes a sync state and a
  projected balance for Arbitrum and for no other network: the state is the
  classification of the first bridged row, the first mainnet row and the first Arbitrum
  row, the balance is the decay model on the first Arbitrum row.
\<close>

theorem only_arbitrum_reported:
  assumes "\<not> allNetworksUnsynced st" and "\<not> anyFetchLoading st" and "\<not> anyRecordAbsent st"
  shows "\<exists>ro rm ra omni m a.
           omniEscrowResponse st = Some ro \<and> firstRow (omniVotingEscrowLocks ro) = Some omni \<and>
           mainnetVotingEscrowResponse st = Some rm \<and>
           firstRow (votingEscrowLocksField rm) = Some m \<and>
           arbitrumVotingEscrowResponse st = Some ra \<and>
           firstRow (votingEscrowLocksField ra) = Some a \<and>
           networksSyncState st =
             Some [(ARBITRUM,
                    getNetworkSyncState \<lparr>bias = bias omni, slope = slope omni\<rparr>
                      \<lparr>bias = bias m, slope = slope m\<rparr> \<lparr>bias = bias a, slope = slope a\<rparr>)] \<and>
           l2VeBalBalances pf nowMs st =
             Some [(ARBITRUM, calculateVeBAlBalance pf nowMs (bias a) (slope a) (timestamp a))]"
proof -
  from assms(3) obtain omni where omni: "omniEscrowLocks st = Some omni"
    by (auto simp: anyRecordAbsent_def)
  then obtain ro where ro: "omniEscrowResponse st = Some ro"
    "firstRow (omniVotingEscrowLocks ro) = Some omni"
    by (auto simp: omniEscrowLocks_def split: if_splits option.splits)
  from assms(3) obtain rm m ms where rm: "mainnetVotingEscrowResponse st = Some rm"
    "votingEscrowLocksField rm = m # ms"
    by (auto simp: anyRecordAbsent_def neq_Nil_conv split: option.splits)
  from assms(3) obtain ra a as where ra: "arbitrumVotingEscrowResponse st = Some ra"
    "votingEscrowLocksField ra = a # as"
    by (auto simp: anyRecordAbsent_def neq_Nil_conv split: option.splits)
  have ve: "votingEscrowLocks st = Some \<lparr>atMAINNET = m, atARBITRUM = a\<rparr>"
    by (simp add: votingEscrowLocks_def rm ra firstRow_def)
  have "\<not> isLoading st"
    using assms(1,2) by (simp add: isLoading_def anyFetchLoading_def)
  then have "networksSyncState st =
      Some [(ARBITRUM,
             getNetworkSyncState \<lparr>bias = bias omni, slope = slope omni\<rparr>
               \<lparr>bias = bias m, slope = slope m\<rparr> \<lparr>bias = bias a, slope = slope a\<rparr>)]"
    using assms(1) by (simp add: networksSyncState_def omni ve)
  moreover have "l2VeBalBalances pf nowMs st =
      Some [(ARBITRUM, calculateVeBAlBalance pf nowMs (bias a) (slope a) (timestamp a))]"
    by (simp add: l2VeBalBalances_def ve)
  ultimately show ?thesis
    using ro rm ra by (simp add: firstRow_def)
qed

theorem only_arbitrum_reported_witness:
  "\<not> allNetworksUnsynced sourcesLoaded \<and> \<not> anyFetchLoading sourcesLoaded \<and>
   \<not> anyRecordAbsent sourcesLoaded \<and>
   (\<exists>s v. networksSyncState sourcesLoaded = Some [(ARBITRUM, s)] \<and>
      l2VeBalBalances samplePlatform 1700000004000 sourcesLoaded = Some [(ARBITRUM, v)])"
  using only_arbitrum_reported [of sourcesLoaded samplePlatform 1700000004000]
  by (auto simp: sourcesLoaded_facts)

text \<open>
  C7. Gnosis is one of \<^verbatim>\<open>allNetworks\<close>, and \<^verbatim>\<open>LayerZeroNetworkId\<close> has no entry for it;
  it has one for Polygon, Arbitrum and Optimism. With the bridge contract configured,
  \<^verbatim>\<open>sync\<close> on Gnosis asks the contract for a fee with an undefined bridge identifier.
\<close>

theorem LayerZeroNetworkId_gnosis_undefined:
  "GNOSIS \<in> set allNetworks \<and> LayerZeroNetworkId GNOSIS = None \<and>
   LayerZeroNetworkId POLYGON = Some 109 \<and> LayerZeroNetworkId ARBITRUM = Some 110 \<and>
   LayerZeroNetworkId OPTIMISM = Some 111 \<and>
   fst (sync (Some ''0xbridge'') ''signer'' bridgeAccepting sourcesLoaded GNOSIS) =
     [EstimateSendUserBalance ''0xbridge'' ''signer'' None,
      SendUserBalance ''0xbridge'' ''signer'' ''0xabc'' None 7]"
  by (simp add: allNetworks_def LayerZeroNetworkId_def sync_def truthy_def bridgeAccepting_def
        sourcesLoaded_def Let_def)

section \<open>Properties of \<^verbatim>\<open>refetch\<close> and \<^verbatim>\<open>sync\<close>\<close>

text \<open>
  C8, as stated, fails: \<^verbatim>\<open>remoteUser\<close> is read after the two first fetches have
  completed, not when \<^verbatim>\<open>refetch\<close> is called. Called on sources with no remote user,
  with fetches that bring one in, it calls the secondary-network fetcher; called on
  sources with a remote user, with fetches that bring back an empty bridged record set,
  it does not.
\<close>

theorem refetch_call_time_counterexample:
  "\<not> truthy (remoteUser sourcesEmptyBridge) \<and>
   issued RefetchVotingEscrowArbitrum
     (fst (refetch fetchedLoaded fetchedArbitrum sourcesEmptyBridge)) = 1 \<and>
   truthy (remoteUser sourcesLoaded) \<and>
   issued RefetchVotingEscrowArbitrum
     (fst (refetch fetchedEmptyBridge fetchedArbitrum sourcesLoaded)) = 0"
  by (simp add: refetch_def issued_def truthy_def remoteUser_def omniEscrowLocks_def
        allNetworksUnsynced_def firstRow_def fetchedLoaded_def fetchedEmptyBridge_def
        sourcesLoaded_def sourcesEmptyBridge_def omniA_def)

text \<open>
  C8, amended. Every call of \<^verbatim>\<open>refetch\<close> calls the bridge-mirror fetcher and the
  canonical-chain fetcher exactly once each, whatever the sources, and both before it
  waits for either. It calls the secondary-network fetcher exactly once if the two
  fetches complete without a rejection and a non-empty remote user is resolved on the
  sources as they stand then, and not at all otherwise; that call comes after the wait
  for the first two.
\<close>

theorem refetch_calls:
  "issued RefetchOmniEscrow (fst (refetch rb ra st)) = 1 \<and>
   issued RefetchVotingEscrow (fst (refetch rb ra st)) = 1 \<and>
   take 3 (fst (refetch rb ra st)) =
     [Issue RefetchOmniEscrow, Issue RefetchVotingEscrow,
      Await [RefetchOmniEscrow, RefetchVotingEscrow]] \<and>
   ((\<exists>st'. rb st = Inr st' \<and> truthy (remoteUser st')) \<longrightarrow>
      issued RefetchVotingEscrowArbitrum (fst (refetch rb ra st)) = 1 \<and>
      drop 3 (fst (refetch rb ra st)) =
        [Issue RefetchVotingEscrowArbitrum, Await [RefetchVotingEscrowArbitrum]]) \<and>
   (\<not> (\<exists>st'. rb st = Inr st' \<and> truthy (remoteUser st')) \<longrightarrow>
      issued RefetchVotingEscrowArbitrum (fst (refetch rb ra st)) = 0 \<and>
      drop 3 (fst (refetch rb ra st)) = [])"
  by (auto simp: refetch_def issued_def Let_def split: sum.splits)

theorem refetch_calls_witness:
  "fetchedLoaded sourcesEmptyBridge = Inr sourcesLoaded \<and> truthy (remoteUser sourcesLoaded) \<and>
   fst (refetch fetchedLoaded fetchedArbitrum sourcesEmptyBridge) =
     [Issue RefetchOmniEscrow, Issue RefetchVotingEscrow,
      Await [RefetchOmniEscrow, RefetchVotingEscrow],
      Issue RefetchVotingEscrowArbitrum, Await [RefetchVotingEscrowArbitrum]] \<and>
   \<not> truthy (remoteUser sourcesEmptyBridge) \<and>
   fst (refetch fetchedEmptyBridge fetchedArbitrum sourcesLoaded) =
     [Issue RefetchOmniEscrow, Issue RefetchVotingEscrow,
      Await [RefetchOmniEscrow, RefetchVotingEscrow]]"
proof -
  have l: "truthy (remoteUser sourcesLoaded)"
    by (simp add: truthy_def remoteUser_def sourcesLoaded_facts omniA_def)
  have e: "\<not> truthy (remoteUser sourcesEmptyBridge)"
    by (simp add: truthy_def remoteUser_def omniEscrowLocks_def allNetworksUnsynced_def
          sourcesEmptyBridge_def)
  have "fst (refetch fetchedLoaded fetchedArbitrum sourcesEmptyBridge) =
          take 3 (fst (refetch fetchedLoaded fetchedArbitrum sourcesEmptyBridge)) @
          drop 3 (fst (refetch fetchedLoaded fetchedArbitrum sourcesEmptyBridge))"
       "fst (refetch fetchedEmptyBridge fetchedArbitrum sourcesLoaded) =
          take 3 (fst (refetch fetchedEmptyBridge fetchedArbitrum sourcesLoaded)) @
          drop 3 (fst (refetch fetchedEmptyBridge fetchedArbitrum sourcesLoaded))"
    by simp_all
  then show ?thesis
    using refetch_calls [of fetchedLoaded fetchedArbitrum sourcesEmptyBridge]
      refetch_calls [of fetchedEmptyBridge fetchedArbitrum sourcesLoaded] l e
    by (simp add: fetchedLoaded_def fetchedEmptyBridge_def)
qed

text \<open>
  C9, as stated, fails in one word: \<^verbatim>\<open>sync\<close> is an \<^verbatim>\<open>async function\<close>, so with no
  bridge contract address configured nothing is thrown to the caller during the call;
  the caller gets a promise, rejected with the error.
\<close>

theorem sync_synchronous_failure_counterexample:
  "snd (sync None ''signer'' bridgeAccepting sourcesLoaded ARBITRUM) =
     Promise (Inl (Error ''No contract address found'')) \<and>
   \<not> threwSynchronously (snd (sync None ''signer'' bridgeAccepting sourcesLoaded ARBITRUM))"
  by (simp add: sync_def truthy_def threwSynchronously_def)

text \<open>
  C9, amended. With no bridge contract address configured, \<^verbatim>\<open>sync\<close> returns a promise
  rejected with the error "No contract address found", having called nothing on the bridge
  contract (the same holds for an empty address); it never throws to its caller. With an
  address, it first asks for the fee; when that call is rejected, the promise of \<^verbatim>\<open>sync\<close>
  is rejected with that rejection and the send is not attempted; when it answers with a
  fee, the send follows, with that fee, and its outcome is the outcome of the promise.
\<close>

theorem sync_fee_then_send:
  "sync None signer new st network =
     ([], Promise (Inl (Error ''No contract address found''))) \<and>
   (\<not> truthy c \<longrightarrow>
      sync c signer new st network =
        ([], Promise (Inl (Error ''No contract address found'')))) \<and>
   \<not> threwSynchronously (snd (sync c signer new st network)) \<and>
   (a \<noteq> [] \<longrightarrow>
      (\<forall>e. estimateSendUserBalance (new a) signer (LayerZeroNetworkId network) = Inl e \<longrightarrow>
         sync (Some a) signer new st network =
           ([EstimateSendUserBalance a signer (LayerZeroNetworkId network)],
            Promise (Inl e))) \<and>
      (\<forall>fee. estimateSendUserBalance (new a) signer (LayerZeroNetworkId network) = Inr fee \<longrightarrow>
         sync (Some a) signer new st network =
           ([EstimateSendUserBalance a signer (LayerZeroNetworkId network),
             SendUserBalance a signer (account st) (LayerZeroNetworkId network) fee],
            Promise
              (sendUserBalance (new a) signer (account st) (LayerZeroNetworkId network)
                 fee))))"
  by (simp add: sync_def truthy_def Let_def threwSynchronously_def split: sum.splits)

theorem sync_fee_then_send_witness:
  "sync None ''signer'' bridgeAccepting sourcesLoaded ARBITRUM =
     ([], Promise (Inl (Error ''No contract address found''))) \<and>
   sync (Some ''0xbridge'') ''signer'' bridgeFeeRejecting sourcesLoaded ARBITRUM =
     ([EstimateSendUserBalance ''0xbridge'' ''signer'' (Some 110)],
      Promise (Inl (Rejection ''fee estimation failed''))) \<and>
   sync (Some ''0xbridge'') ''signer'' bridgeAccepting sourcesLoaded ARBITRUM =
     ([EstimateSendUserBalance ''0xbridge'' ''signer'' (Some 110),
       SendUserBalance ''0xbridge'' ''signer'' ''0xabc'' (Some 110) 7],
      Promise (Inr ''0xtx''))"
  using sync_fee_then_send
    [of "''signer''" bridgeAccepting sourcesLoaded ARBITRUM None "''0xbridge''"]
    sync_fee_then_send
    [of "''signer''" bridgeFeeRejecting sourcesLoaded ARBITRUM None "''0xbridge''"]
  by (simp add: bridgeAccepting_def bridgeFeeRejecting_def LayerZeroNetworkId_def
        sourcesLoaded_def truthy_def)

end
